theory Spec2Isabelle
  imports
    Complex_Main
    "HOL-Library.Char_ord"
    "HOL-Library.List_Lexorder"
    "HOL-Library.Product_Lexorder"
begin

section \<open>Python values and exceptions\<close>

text \<open>
  The attribute store of \<^verbatim>\<open>src/ai.py\<close> keeps arbitrary Python values. A value is one of
  the kinds that \<^verbatim>\<open>_determine_attribute_type\<close> tells apart, plus \<^verbatim>\<open>None\<close> and a
  stand-in for every object the \<^verbatim>\<open>json\<close> module refuses (a set, bytes, a datetime).
  A Python \<^verbatim>\<open>str\<close> is a list of characters, each read as a code point below 256; a
  \<^verbatim>\<open>dict\<close> is the list of its items in insertion order; a \<^verbatim>\<open>float\<close> is idealised as a
  real number, and the two operations that depend on its binary representation
  (\<^verbatim>\<open>float.__repr__\<close> as used by \<^verbatim>\<open>json.dumps\<close>, and \<^verbatim>\<open>float(text)\<close>) are
  parameters of the model, collected in \<open>pyfloat_ops\<close>. Integers are unbounded; the
  limits of the interpreter (recursion depth, the number of digits it converts between
  \<^verbatim>\<open>int\<close> and \<^verbatim>\<open>str\<close>) are not part of the model.
\<close>

datatype pyval =
    VNone
  | VBool bool
  | VInt int
  | VFloat real
  | VStr string
  | VList "pyval list"
  | VDict "(pyval \<times> pyval) list"
  | VOther

datatype py_error =
    TypeError
  | ValueError
  | JSONDecodeError
  | IntegrityError
  | AttributeError

record pyfloat_ops =
  float_repr :: "real \<Rightarrow> string"
  float_of_str :: "string \<Rightarrow> real option"

definition quote :: char where
  "quote = CHR 0x22"

definition backslash :: char where
  "backslash = CHR 0x5C"

subsection \<open>Decimal text of integers: \<^verbatim>\<open>int.__repr__\<close> and \<^verbatim>\<open>int(text)\<close>\<close>

definition digit_char :: "nat \<Rightarrow> char" where
  "digit_char d = ''0123456789abcdef'' ! d"

definition is_digit :: "char \<Rightarrow> bool" where
  "is_digit c = (CHR ''0'' \<le> c \<and> c \<le> CHR ''9'')"

definition digit_val :: "char \<Rightarrow> nat" where
  "digit_val c = of_char c - 48"

fun digits_of_nat :: "nat \<Rightarrow> string" where
  "digits_of_nat n =
     (if n < 10 then [digit_char n]
      else digits_of_nat (n div 10) @ [digit_char (n mod 10)])"

declare digits_of_nat.simps [simp del]

definition int_repr :: "int \<Rightarrow> string" where
  "int_repr i = (if i < 0 then CHR ''-'' # digits_of_nat (nat (- i)) else digits_of_nat (nat i))"

text \<open>
  \<^verbatim>\<open>int(text)\<close> in base ten: surrounding whitespace is stripped, one sign is allowed,
  then digits, where single underscores may stand between two digits. Anything else
  raises \<^verbatim>\<open>ValueError\<close>.
\<close>

definition is_space :: "char \<Rightarrow> bool" where
  "is_space c = ((of_char c :: nat) \<in> {9, 10, 11, 12, 13, 28, 29, 30, 31, 32, 133, 160})"

definition py_strip :: "string \<Rightarrow> string" where
  "py_strip s = rev (dropWhile is_space (rev (dropWhile is_space s)))"

fun int_digits :: "nat \<Rightarrow> string \<Rightarrow> nat option" where
  "int_digits acc [] = Some acc"
| "int_digits acc (c # cs) =
     (if is_digit c then int_digits (10 * acc + digit_val c) cs
      else if c = CHR ''_'' then
        (case cs of
           [] \<Rightarrow> None
         | d # ds \<Rightarrow> if is_digit d then int_digits (10 * acc + digit_val d) ds else None)
      else None)"

definition int_unsigned :: "string \<Rightarrow> nat option" where
  "int_unsigned s =
     (case s of
        [] \<Rightarrow> None
      | d # ds \<Rightarrow> if is_digit d then int_digits (digit_val d) ds else None)"

definition py_int :: "string \<Rightarrow> py_error + int" where
  "py_int text =
     (case py_strip text of
        [] \<Rightarrow> Inl ValueError
      | c # cs \<Rightarrow>
          if c = CHR ''-'' then
            (case int_unsigned cs of None \<Rightarrow> Inl ValueError | Some n \<Rightarrow> Inr (- int n))
          else if c = CHR ''+'' then
            (case int_unsigned cs of None \<Rightarrow> Inl ValueError | Some n \<Rightarrow> Inr (int n))
          else
            (case int_unsigned (c # cs) of None \<Rightarrow> Inl ValueError | Some n \<Rightarrow> Inr (int n)))"

subsection \<open>\<^verbatim>\<open>json.dumps\<close>\<close>

text \<open>
  \<^verbatim>\<open>json.dumps\<close> with its defaults: \<^verbatim>\<open>ensure_ascii\<close> escapes the quote, the backslash
  and every character outside the printable ASCII range; items are separated by
  \<^verbatim>\<open>", "\<close> and keys from values by \<^verbatim>\<open>": "\<close>. A key that is not a string is turned
  into one (\<^verbatim>\<open>1\<close> becomes \<^verbatim>\<open>"1"\<close>, \<^verbatim>\<open>True\<close> becomes \<^verbatim>\<open>"true"\<close>); a key or a value of any
  other type raises \<^verbatim>\<open>TypeError\<close>.
\<close>

definition esc_char :: "char \<Rightarrow> string" where
  "esc_char c =
     (if c = quote then [backslash, quote]
      else if c = backslash then [backslash, backslash]
      else if c = CHR 0x0A then [backslash, CHR ''n'']
      else if c = CHR 0x0D then [backslash, CHR ''r'']
      else if c = CHR 0x09 then [backslash, CHR ''t'']
      else if c = CHR 0x08 then [backslash, CHR ''b'']
      else if c = CHR 0x0C then [backslash, CHR ''f'']
      else if CHR 0x20 \<le> c \<and> c \<le> CHR 0x7E then [c]
      else [backslash, CHR ''u'', CHR ''0'', CHR ''0'',
            digit_char (of_char c div 16), digit_char (of_char c mod 16)])"

definition dumps_str :: "string \<Rightarrow> string" where
  "dumps_str s = quote # concat (map esc_char s) @ [quote]"

fun key_text :: "pyfloat_ops \<Rightarrow> pyval \<Rightarrow> string option" where
  "key_text fo (VStr s) = Some s"
| "key_text fo (VFloat r) = Some (float_repr fo r)"
| "key_text fo (VBool b) = Some (if b then ''true'' else ''false'')"
| "key_text fo VNone = Some ''null''"
| "key_text fo (VInt i) = Some (int_repr i)"
| "key_text fo _ = None"

fun serializable :: "pyval \<Rightarrow> bool"
  and serializable_list :: "pyval list \<Rightarrow> bool"
  and serializable_items :: "(pyval \<times> pyval) list \<Rightarrow> bool" where
  "serializable VNone = True"
| "serializable (VBool b) = True"
| "serializable (VInt i) = True"
| "serializable (VFloat r) = True"
| "serializable (VStr s) = True"
| "serializable (VList xs) = serializable_list xs"
| "serializable (VDict kvs) = serializable_items kvs"
| "serializable VOther = False"
| "serializable_list [] = True"
| "serializable_list (x # xs) = (serializable x \<and> serializable_list xs)"
| "serializable_items [] = True"
| "serializable_items (kv # kvs) =
     ((case fst kv of VList _ \<Rightarrow> False | VDict _ \<Rightarrow> False | VOther \<Rightarrow> False | _ \<Rightarrow> True)
      \<and> serializable (snd kv) \<and> serializable_items kvs)"

fun dumps_text :: "pyfloat_ops \<Rightarrow> pyval \<Rightarrow> string"
  and dumps_list :: "pyfloat_ops \<Rightarrow> pyval list \<Rightarrow> string"
  and dumps_items :: "pyfloat_ops \<Rightarrow> (pyval \<times> pyval) list \<Rightarrow> string" where
  "dumps_text fo VNone = ''null''"
| "dumps_text fo (VBool b) = (if b then ''true'' else ''false'')"
| "dumps_text fo (VInt i) = int_repr i"
| "dumps_text fo (VFloat r) = float_repr fo r"
| "dumps_text fo (VStr s) = dumps_str s"
| "dumps_text fo (VList xs) = CHR ''['' # dumps_list fo xs @ '']''"
| "dumps_text fo (VDict kvs) = CHR ''{'' # dumps_items fo kvs @ ''}''"
| "dumps_text fo VOther = []"
| "dumps_list fo [] = []"
| "dumps_list fo (x # xs) =
     dumps_text fo x @ (if xs = [] then [] else '', '' @ dumps_list fo xs)"
| "dumps_items fo [] = []"
| "dumps_items fo (kv # kvs) =
     dumps_str (case key_text fo (fst kv) of Some t \<Rightarrow> t | None \<Rightarrow> []) @ '': ''
       @ dumps_text fo (snd kv)
       @ (if kvs = [] then [] else '', '' @ dumps_items fo kvs)"

definition json_dumps :: "pyfloat_ops \<Rightarrow> pyval \<Rightarrow> py_error + string" where
  "json_dumps fo v = (if serializable v then Inr (dumps_text fo v) else Inl TypeError)"

subsection \<open>\<^verbatim>\<open>json.loads\<close>\<close>

text \<open>
  The decoder of the \<^verbatim>\<open>json\<close> module, in the shape of its Python implementation:
  \<open>scanstring\<close> reads a string after its opening quote, \<open>scan_number\<close> is the number
  pattern, \<open>scan_once\<close> reads one value, and the array and object loops read the rest.
  Every function returns the value read and the text behind it, \<open>None\<close> where the module
  raises \<^verbatim>\<open>JSONDecodeError\<close>. The recursion is bounded by a counter that \<open>json_loads\<close>
  starts above the length of the text. A \<^verbatim>\<open>\uXXXX\<close> escape that names a code point above
  255 has no image in the character type used here; \<open>scanstring\<close> gives \<open>None\<close> for it,
  and no theorem below relies on that answer.
\<close>

definition is_json_ws :: "char \<Rightarrow> bool" where
  "is_json_ws c = (c = CHR 0x20 \<or> c = CHR 0x09 \<or> c = CHR 0x0A \<or> c = CHR 0x0D)"

definition skip_ws :: "string \<Rightarrow> string" where
  "skip_ws s = dropWhile is_json_ws s"

definition hex_val :: "char \<Rightarrow> nat option" where
  "hex_val c =
     (if CHR ''0'' \<le> c \<and> c \<le> CHR ''9'' then Some (of_char c - 48)
      else if CHR ''a'' \<le> c \<and> c \<le> CHR ''f'' then Some (of_char c - 87)
      else if CHR ''A'' \<le> c \<and> c \<le> CHR ''F'' then Some (of_char c - 55)
      else None)"

definition decode_uXXXX :: "char \<Rightarrow> char \<Rightarrow> char \<Rightarrow> char \<Rightarrow> char option" where
  "decode_uXXXX h1 h2 h3 h4 =
     (case (hex_val h1, hex_val h2, hex_val h3, hex_val h4) of
        (Some a, Some b, Some c, Some d) \<Rightarrow>
          if a = 0 \<and> b = 0 then Some (char_of (16 * c + d)) else None
      | _ \<Rightarrow> None)"

definition unescape :: "char \<Rightarrow> char option" where
  "unescape e =
     (if e = quote then Some quote
      else if e = backslash then Some backslash
      else if e = CHR ''/'' then Some CHR ''/''
      else if e = CHR ''b'' then Some (CHR 0x08)
      else if e = CHR ''f'' then Some (CHR 0x0C)
      else if e = CHR ''n'' then Some (CHR 0x0A)
      else if e = CHR ''r'' then Some (CHR 0x0D)
      else if e = CHR ''t'' then Some (CHR 0x09)
      else None)"

definition cons_result :: "char \<Rightarrow> (string \<times> string) option \<Rightarrow> (string \<times> string) option" where
  "cons_result c r = (case r of None \<Rightarrow> None | Some (s, rest) \<Rightarrow> Some (c # s, rest))"

fun scanstring :: "string \<Rightarrow> (string \<times> string) option" where
  "scanstring [] = None"
| "scanstring (c # cs) =
     (if c = quote then Some ([], cs)
      else if c = backslash then
        (case cs of
           [] \<Rightarrow> None
         | e # r \<Rightarrow>
             if e = CHR ''u'' then
               (case r of
                  h1 # h2 # h3 # h4 # r' \<Rightarrow>
                    (case decode_uXXXX h1 h2 h3 h4 of
                       None \<Rightarrow> None
                     | Some ch \<Rightarrow> cons_result ch (scanstring r'))
                | _ \<Rightarrow> None)
             else
               (case unescape e of
                  None \<Rightarrow> None
                | Some ch \<Rightarrow> cons_result ch (scanstring r)))
      else if c < CHR 0x20 then None
      else cons_result c (scanstring cs))"

fun dec_val :: "nat \<Rightarrow> string \<Rightarrow> nat" where
  "dec_val acc [] = acc"
| "dec_val acc (c # cs) = dec_val (10 * acc + digit_val c) cs"

text \<open>
  The number pattern \<^verbatim>\<open>(-?(?:0|[1-9]\d*))(\.\d+)?([eE][-+]?\d+)?\<close>. \<open>scan_int_part\<close>
  is the first group without its sign; \<open>scan_frac\<close> and \<open>scan_exp\<close> are the optional
  groups, empty when they do not match.
\<close>

definition scan_int_part :: "string \<Rightarrow> (string \<times> string) option" where
  "scan_int_part s =
     (case s of
        [] \<Rightarrow> None
      | c # cs \<Rightarrow>
          if c = CHR ''0'' then Some ([c], cs)
          else if is_digit c then Some (c # takeWhile is_digit cs, dropWhile is_digit cs)
          else None)"

definition scan_frac :: "string \<Rightarrow> string \<times> string" where
  "scan_frac s =
     (case s of
        c # d # r \<Rightarrow>
          if c = CHR ''.'' \<and> is_digit d
          then (c # d # takeWhile is_digit r, dropWhile is_digit r)
          else ([], s)
      | _ \<Rightarrow> ([], s))"

definition scan_exp :: "string \<Rightarrow> string \<times> string" where
  "scan_exp s =
     (case s of
        e # r \<Rightarrow>
          if e = CHR ''e'' \<or> e = CHR ''E'' then
            (case r of
               d # r1 \<Rightarrow>
                 if is_digit d then (e # d # takeWhile is_digit r1, dropWhile is_digit r1)
                 else if d = CHR ''+'' \<or> d = CHR ''-'' then
                   (case r1 of
                      d2 # r2 \<Rightarrow>
                        if is_digit d2
                        then (e # d # d2 # takeWhile is_digit r2, dropWhile is_digit r2)
                        else ([], s)
                    | [] \<Rightarrow> ([], s))
                 else ([], s)
             | [] \<Rightarrow> ([], s))
          else ([], s)
      | [] \<Rightarrow> ([], s))"

definition scan_number :: "pyfloat_ops \<Rightarrow> string \<Rightarrow> (pyval \<times> string) option option" where
  "scan_number fo s =
     (let neg = (s \<noteq> [] \<and> hd s = CHR ''-'');
          body = (if neg then tl s else s)
      in case scan_int_part body of
           None \<Rightarrow> None
         | Some (ip, r0) \<Rightarrow>
             (let (frac, r1) = scan_frac r0;
                  (ex, r2) = scan_exp r1
              in if frac = [] \<and> ex = []
                 then Some (Some (VInt (if neg then - int (dec_val 0 ip) else int (dec_val 0 ip)), r2))
                 else Some (case float_of_str fo ((if neg then ''-'' else []) @ ip @ frac @ ex) of
                              None \<Rightarrow> None
                            | Some x \<Rightarrow> Some (VFloat x, r2))))"

text \<open>
  \<^verbatim>\<open>dict(pairs)\<close>: a key that comes twice keeps its first position and its last value.
\<close>

definition dict_set :: "('k \<times> 'v) list \<Rightarrow> 'k \<Rightarrow> 'v \<Rightarrow> ('k \<times> 'v) list" where
  "dict_set d k v =
     (if k \<in> fst ` set d then map (\<lambda>kv. if fst kv = k then (k, v) else kv) d
      else d @ [(k, v)])"

definition dict_of_pairs :: "('k \<times> 'v) list \<Rightarrow> ('k \<times> 'v) list" where
  "dict_of_pairs kvs = foldl (\<lambda>d kv. dict_set d (fst kv) (snd kv)) [] kvs"

definition constant_value :: "pyfloat_ops \<Rightarrow> string \<Rightarrow> string \<Rightarrow> (pyval \<times> string) option" where
  "constant_value fo name rest =
     (case float_of_str fo name of None \<Rightarrow> None | Some x \<Rightarrow> Some (VFloat x, rest))"

fun scan_once :: "pyfloat_ops \<Rightarrow> nat \<Rightarrow> string \<Rightarrow> (pyval \<times> string) option"
  and parse_array :: "pyfloat_ops \<Rightarrow> nat \<Rightarrow> string \<Rightarrow> (pyval list \<times> string) option"
  and parse_object ::
    "pyfloat_ops \<Rightarrow> nat \<Rightarrow> string \<Rightarrow> ((pyval \<times> pyval) list \<times> string) option" where
  "scan_once fo 0 s = None"
| "scan_once fo (Suc n) s =
     (case s of
        [] \<Rightarrow> None
      | c # cs \<Rightarrow>
          if c = quote then
            (case scanstring cs of None \<Rightarrow> None | Some (t, r) \<Rightarrow> Some (VStr t, r))
          else if c = CHR ''{'' then
            (case skip_ws cs of
               [] \<Rightarrow> None
             | d # r \<Rightarrow>
                 if d = CHR ''}'' then Some (VDict [], r)
                 else (case parse_object fo n (d # r) of
                         None \<Rightarrow> None
                       | Some (kvs, r') \<Rightarrow> Some (VDict (dict_of_pairs kvs), r')))
          else if c = CHR ''['' then
            (case skip_ws cs of
               [] \<Rightarrow> None
             | d # r \<Rightarrow>
                 if d = CHR '']'' then Some (VList [], r)
                 else (case parse_array fo n (d # r) of
                         None \<Rightarrow> None
                       | Some (vs, r') \<Rightarrow> Some (VList vs, r')))
          else if c = CHR ''n'' \<and> take 3 cs = ''ull'' then Some (VNone, drop 3 cs)
          else if c = CHR ''t'' \<and> take 3 cs = ''rue'' then Some (VBool True, drop 3 cs)
          else if c = CHR ''f'' \<and> take 4 cs = ''alse'' then Some (VBool False, drop 4 cs)
          else
            (case scan_number fo s of
               Some res \<Rightarrow> res
             | None \<Rightarrow>
                 if c = CHR ''N'' \<and> take 2 cs = ''aN'' then constant_value fo ''nan'' (drop 2 cs)
                 else if c = CHR ''I'' \<and> take 7 cs = ''nfinity''
                   then constant_value fo ''inf'' (drop 7 cs)
                 else if c = CHR ''-'' \<and> take 8 cs = ''Infinity''
                   then constant_value fo ''-inf'' (drop 8 cs)
                 else None))"
| "parse_array fo 0 s = None"
| "parse_array fo (Suc n) s =
     (case scan_once fo n s of
        None \<Rightarrow> None
      | Some (v, r) \<Rightarrow>
          (case skip_ws r of
             [] \<Rightarrow> None
           | d # r' \<Rightarrow>
               if d = CHR '']'' then Some ([v], r')
               else if d = CHR '','' then
                 (case parse_array fo n (skip_ws r') of
                    None \<Rightarrow> None
                  | Some (vs, r'') \<Rightarrow> Some (v # vs, r''))
               else None))"
| "parse_object fo 0 s = None"
| "parse_object fo (Suc n) s =
     (case s of
        [] \<Rightarrow> None
      | q # s1 \<Rightarrow>
          if q \<noteq> quote then None
          else
            (case scanstring s1 of
               None \<Rightarrow> None
             | Some (k, r) \<Rightarrow>
                 (case skip_ws r of
                    [] \<Rightarrow> None
                  | col # r1 \<Rightarrow>
                      if col \<noteq> CHR '':'' then None
                      else
                        (case scan_once fo n (skip_ws r1) of
                           None \<Rightarrow> None
                         | Some (v, r2) \<Rightarrow>
                             (case skip_ws r2 of
                                [] \<Rightarrow> None
                              | d # r3 \<Rightarrow>
                                  if d = CHR ''}'' then Some ([(VStr k, v)], r3)
                                  else if d = CHR '','' then
                                    (case parse_object fo n (skip_ws r3) of
                                       None \<Rightarrow> None
                                     | Some (kvs, r4) \<Rightarrow> Some ((VStr k, v) # kvs, r4))
                                  else None)))))"

definition json_loads :: "pyfloat_ops \<Rightarrow> string \<Rightarrow> py_error + pyval" where
  "json_loads fo s =
     (case scan_once fo (Suc (length s)) (skip_ws s) of
        None \<Rightarrow> Inl JSONDecodeError
      | Some (v, r) \<Rightarrow> if skip_ws r = [] then Inr v else Inl JSONDecodeError)"

section \<open>The attribute codec\<close>

text \<open>
  \<^verbatim>\<open>_determine_attribute_type\<close> (lines 333-344) picks the tag; the text stored beside
  it is \<^verbatim>\<open>json.dumps(value) if not isinstance(value, str) else value\<close> (lines 319 and
  536); \<^verbatim>\<open>_parse_attribute_value\<close> (lines 395-409) reads the pair back.
\<close>

definition determine_attribute_type :: "pyval \<Rightarrow> string" where
  "determine_attribute_type v =
     (case v of
        VBool _ \<Rightarrow> ''boolean''
      | VInt _ \<Rightarrow> ''integer''
      | VFloat _ \<Rightarrow> ''float''
      | VDict _ \<Rightarrow> ''json''
      | VList _ \<Rightarrow> ''json''
      | _ \<Rightarrow> ''text'')"

definition attribute_text :: "pyfloat_ops \<Rightarrow> pyval \<Rightarrow> py_error + string" where
  "attribute_text fo v = (case v of VStr s \<Rightarrow> Inr s | _ \<Rightarrow> json_dumps fo v)"

definition py_lower_char :: "char \<Rightarrow> char" where
  "py_lower_char c =
     (let n = (of_char c :: nat)
      in if (65 \<le> n \<and> n \<le> 90) \<or> (192 \<le> n \<and> n \<le> 222 \<and> n \<noteq> 215)
         then char_of (n + 32) else c)"

definition py_lower :: "string \<Rightarrow> string" where
  "py_lower s = map py_lower_char s"

definition parse_attribute_value :: "pyfloat_ops \<Rightarrow> string \<Rightarrow> string \<Rightarrow> py_error + pyval" where
  "parse_attribute_value fo value_str attr_type =
     (if attr_type = ''json'' then
        (case json_loads fo value_str of
           Inl e \<Rightarrow> Inr (VStr value_str)
         | Inr v \<Rightarrow> Inr v)
      else if attr_type = ''boolean'' then Inr (VBool (py_lower value_str = ''true''))
      else if attr_type = ''integer'' then
        (case py_int value_str of Inl e \<Rightarrow> Inl e | Inr i \<Rightarrow> Inr (VInt i))
      else if attr_type = ''float'' then
        (case float_of_str fo value_str of None \<Rightarrow> Inl ValueError | Some x \<Rightarrow> Inr (VFloat x))
      else Inr (VStr value_str))"

section \<open>The store\<close>

text \<open>
  The three tables of \<^verbatim>\<open>_initialize_database\<close> (lines 202-258), each a list of rows in
  insertion order. The surrogate \<^verbatim>\<open>id INTEGER PRIMARY KEY AUTOINCREMENT\<close> of the two
  child tables is read by no query of the program and is left out. Real columns hold
  real numbers; the two timestamp columns hold the text of \<^verbatim>\<open>CURRENT_TIMESTAMP\<close>, which
  the operations take as the argument \<open>now\<close>.

  Every statement runs on a connection made by \<^verbatim>\<open>sqlite3.connect(self.db_path)\<close>
  (line 190) with nothing else set. SQLite enforces \<^verbatim>\<open>FOREIGN KEY\<close> clauses, and runs
  \<^verbatim>\<open>ON DELETE CASCADE\<close>, only on a connection that has issued
  \<^verbatim>\<open>PRAGMA foreign_keys = ON\<close>; \<^verbatim>\<open>get_connection\<close> does not, so the statements below
  check the \<^verbatim>\<open>PRIMARY KEY\<close> and \<^verbatim>\<open>UNIQUE\<close> constraints and no foreign key.
\<close>

record facility_row =
  f_id :: string
  f_name :: string
  f_facility_type :: string
  f_address :: string
  f_latitude :: real
  f_longitude :: real
  f_rating :: "real option"
  f_phone :: "string option"
  f_created_at :: string
  f_updated_at :: string

record service_row =
  s_facility_id :: string
  service_name :: string

record attribute_row =
  a_facility_id :: string
  attribute_key :: string
  attribute_value :: string
  attribute_type :: string

record database =
  facilities :: "facility_row list"
  facility_services :: "service_row list"
  facility_attributes :: "attribute_row list"

text \<open>Direct lookups: the rows of one facility id in each table.\<close>

definition facility_of :: "database \<Rightarrow> string \<Rightarrow> facility_row option" where
  "facility_of db fid = find (\<lambda>r. f_id r = fid) (facilities db)"

definition services_of :: "database \<Rightarrow> string \<Rightarrow> string list" where
  "services_of db fid =
     map service_name (filter (\<lambda>r. s_facility_id r = fid) (facility_services db))"

definition attributes_of :: "database \<Rightarrow> string \<Rightarrow> attribute_row list" where
  "attributes_of db fid = filter (\<lambda>r. a_facility_id r = fid) (facility_attributes db)"

subsection \<open>SQL statements\<close>

definition sql_replace_facility :: "facility_row \<Rightarrow> database \<Rightarrow> database" where
  \<comment> \<open>\<^verbatim>\<open>INSERT OR REPLACE INTO facilities\<close>: a row with the same primary key is deleted first\<close>
  "sql_replace_facility row db =
     db\<lparr>facilities := filter (\<lambda>r. f_id r \<noteq> f_id row) (facilities db) @ [row]\<rparr>"

definition sql_delete_services :: "string \<Rightarrow> database \<Rightarrow> database" where
  "sql_delete_services fid db =
     db\<lparr>facility_services := filter (\<lambda>r. s_facility_id r \<noteq> fid) (facility_services db)\<rparr>"

definition sql_insert_service :: "string \<Rightarrow> string \<Rightarrow> database \<Rightarrow> py_error + database" where
  \<comment> \<open>\<^verbatim>\<open>UNIQUE(facility_id, service_name)\<close>\<close>
  "sql_insert_service fid service db =
     (if list_ex (\<lambda>r. s_facility_id r = fid \<and> service_name r = service) (facility_services db)
      then Inl IntegrityError
      else Inr (db\<lparr>facility_services :=
                  facility_services db @ [\<lparr>s_facility_id = fid, service_name = service\<rparr>]\<rparr>))"

definition sql_delete_attributes :: "string \<Rightarrow> database \<Rightarrow> database" where
  "sql_delete_attributes fid db =
     db\<lparr>facility_attributes := filter (\<lambda>r. a_facility_id r \<noteq> fid) (facility_attributes db)\<rparr>"

definition same_attribute :: "attribute_row \<Rightarrow> attribute_row \<Rightarrow> bool" where
  "same_attribute a b = (a_facility_id a = a_facility_id b \<and> attribute_key a = attribute_key b)"

definition sql_insert_attribute :: "attribute_row \<Rightarrow> database \<Rightarrow> py_error + database" where
  \<comment> \<open>\<^verbatim>\<open>UNIQUE(facility_id, attribute_key)\<close>\<close>
  "sql_insert_attribute row db =
     (if list_ex (same_attribute row) (facility_attributes db)
      then Inl IntegrityError
      else Inr (db\<lparr>facility_attributes := facility_attributes db @ [row]\<rparr>))"

definition sql_replace_attribute :: "attribute_row \<Rightarrow> database \<Rightarrow> database" where
  \<comment> \<open>\<^verbatim>\<open>INSERT OR REPLACE INTO facility_attributes\<close>\<close>
  "sql_replace_attribute row db =
     db\<lparr>facility_attributes :=
          filter (\<lambda>r. \<not> same_attribute row r) (facility_attributes db) @ [row]\<rparr>"

definition sql_touch_facility :: "string \<Rightarrow> string \<Rightarrow> database \<Rightarrow> database" where
  \<comment> \<open>\<^verbatim>\<open>UPDATE facilities SET updated_at = CURRENT_TIMESTAMP WHERE id = ?\<close>\<close>
  "sql_touch_facility now fid db =
     db\<lparr>facilities :=
          map (\<lambda>r. if f_id r = fid then r\<lparr>f_updated_at := now\<rparr> else r) (facilities db)\<rparr>"

definition sql_delete_facility :: "string \<Rightarrow> database \<Rightarrow> database" where
  \<comment> \<open>\<^verbatim>\<open>DELETE FROM facilities WHERE id = ?\<close>, with no foreign key action\<close>
  "sql_delete_facility fid db = db\<lparr>facilities := filter (\<lambda>r. f_id r \<noteq> fid) (facilities db)\<rparr>"

subsection \<open>Transactions\<close>

text \<open>
  \<^verbatim>\<open>get_connection\<close> (lines 187-200): the body of the \<^verbatim>\<open>with\<close> block runs on the
  connection; leaving it normally commits, an exception rolls back what the body wrote
  and is raised again.
\<close>

definition get_connection ::
  "database \<Rightarrow> (database \<Rightarrow> py_error + 'a \<times> database) \<Rightarrow> (py_error + 'a) \<times> database" where
  "get_connection db body =
     (case body db of
        Inr (r, conn) \<Rightarrow> (Inr r, conn)
      | Inl e \<Rightarrow> (Inl e, db))"

subsection \<open>\<^verbatim>\<open>add_facility\<close> (lines 260-331)\<close>

fun insert_services :: "string \<Rightarrow> string list \<Rightarrow> database \<Rightarrow> py_error + database" where
  "insert_services fid [] conn = Inr conn"
| "insert_services fid (service # rest) conn =
     (case sql_insert_service fid service conn of
        Inl e \<Rightarrow> Inl e
      | Inr conn' \<Rightarrow> insert_services fid rest conn')"

fun insert_attributes ::
  "pyfloat_ops \<Rightarrow> string \<Rightarrow> (string \<times> pyval) list \<Rightarrow> database \<Rightarrow> py_error + database" where
  "insert_attributes fo fid [] conn = Inr conn"
| "insert_attributes fo fid (kv # rest) conn =
     (case attribute_text fo (snd kv) of
        Inl e \<Rightarrow> Inl e
      | Inr value_str \<Rightarrow>
          (case sql_insert_attribute
                  \<lparr>a_facility_id = fid, attribute_key = fst kv, attribute_value = value_str,
                   attribute_type = determine_attribute_type (snd kv)\<rparr> conn of
             Inl e \<Rightarrow> Inl e
           | Inr conn' \<Rightarrow> insert_attributes fo fid rest conn'))"

definition add_facility_body ::
  "pyfloat_ops \<Rightarrow> string \<Rightarrow> string \<Rightarrow> string \<Rightarrow> string \<Rightarrow> string \<Rightarrow> real \<Rightarrow> real \<Rightarrow> string list
     \<Rightarrow> real option \<Rightarrow> string option \<Rightarrow> (string \<times> pyval) list option
     \<Rightarrow> database \<Rightarrow> py_error + bool \<times> database" where
  "add_facility_body fo now facility_id name facility_type address latitude longitude services
       rating phone attributes conn =
     (let c1 = sql_replace_facility
                 \<lparr>f_id = facility_id, f_name = name, f_facility_type = facility_type,
                  f_address = address, f_latitude = latitude, f_longitude = longitude,
                  f_rating = rating, f_phone = phone, f_created_at = now, f_updated_at = now\<rparr>
                 conn;
          c2 = sql_delete_services facility_id c1
      in case insert_services facility_id services c2 of
           Inl e \<Rightarrow> Inl e
         | Inr c3 \<Rightarrow>
             (let c4 = sql_delete_attributes facility_id c3
              in case (case attributes of
                         None \<Rightarrow> Inr c4
                       | Some items \<Rightarrow> insert_attributes fo facility_id items c4) of
                   Inl e \<Rightarrow> Inl e
                 | Inr c5 \<Rightarrow> Inr (True, c5)))"

definition add_facility ::
  "pyfloat_ops \<Rightarrow> string \<Rightarrow> database \<Rightarrow> string \<Rightarrow> string \<Rightarrow> string \<Rightarrow> string \<Rightarrow> real \<Rightarrow> real
     \<Rightarrow> string list \<Rightarrow> real option \<Rightarrow> string option \<Rightarrow> (string \<times> pyval) list option
     \<Rightarrow> bool \<times> database" where
  "add_facility fo now db facility_id name facility_type address latitude longitude services
       rating phone attributes =
     (case get_connection db
             (add_facility_body fo now facility_id name facility_type address latitude longitude
                services rating phone attributes) of
        (Inr ok, db') \<Rightarrow> (ok, db')
      | (Inl e, db') \<Rightarrow> (False, db'))"

subsection \<open>\<^verbatim>\<open>get_facility\<close> (lines 346-393)\<close>

text \<open>
  The dictionary that \<^verbatim>\<open>get_facility\<close> builds: the columns of the row, the key
  \<^verbatim>\<open>services\<close>, the key \<^verbatim>\<open>attributes\<close>, and the key \<^verbatim>\<open>distance_miles\<close> that only
  \<^verbatim>\<open>search_facilities\<close> adds (\<open>None\<close> while the key is absent).
\<close>

record facility =
  core :: facility_row
  services :: "string list"
  attributes :: "(string \<times> pyval) list"
  distance_miles :: "real option"

fun parse_attributes ::
  "pyfloat_ops \<Rightarrow> attribute_row list \<Rightarrow> (string \<times> pyval) list
     \<Rightarrow> py_error + (string \<times> pyval) list" where
  "parse_attributes fo [] acc = Inr acc"
| "parse_attributes fo (r # rs) acc =
     (case parse_attribute_value fo (attribute_value r) (attribute_type r) of
        Inl e \<Rightarrow> Inl e
      | Inr v \<Rightarrow> parse_attributes fo rs (dict_set acc (attribute_key r) v))"

definition get_facility_body ::
  "pyfloat_ops \<Rightarrow> string \<Rightarrow> database \<Rightarrow> py_error + facility option \<times> database" where
  "get_facility_body fo facility_id conn =
     (case facility_of conn facility_id of
        None \<Rightarrow> Inr (None, conn)
      | Some row \<Rightarrow>
          (case parse_attributes fo (attributes_of conn facility_id) [] of
             Inl e \<Rightarrow> Inl e
           | Inr attrs \<Rightarrow>
               Inr (Some \<lparr>core = row, services = sort (services_of conn facility_id),
                          attributes = attrs, distance_miles = None\<rparr>, conn)))"

definition get_facility :: "pyfloat_ops \<Rightarrow> database \<Rightarrow> string \<Rightarrow> facility option" where
  "get_facility fo db facility_id =
     (case fst (get_connection db (get_facility_body fo facility_id)) of
        Inr res \<Rightarrow> res
      | Inl e \<Rightarrow> None)"

subsection \<open>\<^verbatim>\<open>update_facility_attribute\<close> (lines 514-555) and \<^verbatim>\<open>delete_facility\<close> (557-567)\<close>

definition update_facility_attribute_body ::
  "pyfloat_ops \<Rightarrow> string \<Rightarrow> string \<Rightarrow> string \<Rightarrow> pyval \<Rightarrow> database
     \<Rightarrow> py_error + bool \<times> database" where
  "update_facility_attribute_body fo now facility_id key v conn =
     (case attribute_text fo v of
        Inl e \<Rightarrow> Inl e
      | Inr value_str \<Rightarrow>
          (let c1 = sql_replace_attribute
                      \<lparr>a_facility_id = facility_id, attribute_key = key,
                       attribute_value = value_str,
                       attribute_type = determine_attribute_type v\<rparr> conn;
               c2 = sql_touch_facility now facility_id c1
           in Inr (True, c2)))"

definition update_facility_attribute ::
  "pyfloat_ops \<Rightarrow> string \<Rightarrow> database \<Rightarrow> string \<Rightarrow> string \<Rightarrow> pyval \<Rightarrow> bool \<times> database" where
  "update_facility_attribute fo now db facility_id key v =
     (case get_connection db (update_facility_attribute_body fo now facility_id key v) of
        (Inr ok, db') \<Rightarrow> (ok, db')
      | (Inl e, db') \<Rightarrow> (False, db'))"

definition delete_facility :: "database \<Rightarrow> string \<Rightarrow> bool \<times> database" where
  "delete_facility db facility_id =
     (case get_connection db (\<lambda>conn. Inr (True, sql_delete_facility facility_id conn)) of
        (Inr ok, db') \<Rightarrow> (ok, db')
      | (Inl (e :: py_error), db') \<Rightarrow> (False, db'))"

definition get_all_facility_ids :: "database \<Rightarrow> string list" where
  "get_all_facility_ids db = map f_id (facilities db)"

subsection \<open>\<^verbatim>\<open>_calculate_distance\<close> (lines 503-512)\<close>

text \<open>
  The haversine formula over the real numbers. \<^verbatim>\<open>math.sqrt\<close> raises \<^verbatim>\<open>ValueError\<close>
  below zero and \<^verbatim>\<open>math.asin\<close> outside \<open>[-1, 1]\<close>; the source applies both to \<open>a\<close>
  as computed, with no \<^verbatim>\<open>min\<close> or \<^verbatim>\<open>max\<close> in between.
\<close>

definition radians :: "real \<Rightarrow> real" where
  "radians x = x * pi / 180"

definition haversine_a :: "real \<Rightarrow> real \<Rightarrow> real \<Rightarrow> real \<Rightarrow> real" where
  "haversine_a lat1 lon1 lat2 lon2 =
     (let dlat = radians (lat2 - lat1);
          dlon = radians (lon2 - lon1)
      in (sin (dlat / 2))\<^sup>2
           + cos (radians lat1) * cos (radians lat2) * (sin (dlon / 2))\<^sup>2)"

definition calculate_distance :: "real \<Rightarrow> real \<Rightarrow> real \<Rightarrow> real \<Rightarrow> py_error + real" where
  "calculate_distance lat1 lon1 lat2 lon2 =
     (let a = haversine_a lat1 lon1 lat2 lon2
      in if a < 0 then Inl ValueError
         else if 1 < sqrt a then Inl ValueError
         else Inr (3959 * (2 * arcsin (sqrt a))))"

subsection \<open>\<^verbatim>\<open>search_facilities\<close> (lines 411-501)\<close>

text \<open>
  SQLite's \<^verbatim>\<open>LIKE\<close>: \<^verbatim>\<open>%\<close> stands for any run of characters, \<^verbatim>\<open>_\<close> for one, and
  ASCII letters match without regard to case.
\<close>

definition ascii_fold :: "char \<Rightarrow> char" where
  "ascii_fold c = (if CHR ''A'' \<le> c \<and> c \<le> CHR ''Z'' then char_of (of_char c + (32 :: nat)) else c)"

fun sql_like :: "string \<Rightarrow> string \<Rightarrow> bool" where
  "sql_like [] t = (t = [])"
| "sql_like (p # ps) t =
     (if p = CHR ''%'' then
        (sql_like ps t \<or> (case t of [] \<Rightarrow> False | c # t' \<Rightarrow> sql_like (p # ps) t'))
      else
        (case t of
           [] \<Rightarrow> False
         | c # t' \<Rightarrow> (p = CHR ''_'' \<or> ascii_fold p = ascii_fold c) \<and> sql_like ps t'))"

text \<open>
  The \<^verbatim>\<open>WHERE\<close> clause that the function assembles. An argument that is \<^verbatim>\<open>None\<close> or
  empty adds no condition (\<^verbatim>\<open>if facility_type:\<close>, \<^verbatim>\<open>if service:\<close>,
  \<^verbatim>\<open>if attribute_filters:\<close>); \<^verbatim>\<open>min_rating\<close> is tested with \<^verbatim>\<open>is not None\<close>. The value of
  an attribute filter is given as the text \<^verbatim>\<open>str(attr_value)\<close>. The rows come back in
  table order.
\<close>

definition row_matches ::
  "database \<Rightarrow> string option \<Rightarrow> string option \<Rightarrow> real option \<Rightarrow> (string \<times> string) list option
     \<Rightarrow> facility_row \<Rightarrow> bool" where
  "row_matches db facility_type service min_rating attribute_filters r =
     ((case facility_type of
         None \<Rightarrow> True
       | Some t \<Rightarrow> t = [] \<or> f_facility_type r = t)
      \<and> (case service of
           None \<Rightarrow> True
         | Some sv \<Rightarrow> sv = [] \<or> list_ex (sql_like (''%'' @ sv @ ''%'')) (services_of db (f_id r)))
      \<and> (case min_rating of
           None \<Rightarrow> True
         | Some m \<Rightarrow> (case f_rating r of None \<Rightarrow> False | Some x \<Rightarrow> m \<le> x))
      \<and> (case attribute_filters of
           None \<Rightarrow> True
         | Some fs \<Rightarrow>
             list_all
               (\<lambda>kv. list_ex (\<lambda>a. attribute_key a = fst kv
                                \<and> sql_like (''%'' @ snd kv @ ''%'') (attribute_value a))
                        (attributes_of db (f_id r)))
               fs))"

definition truthy :: "real option \<Rightarrow> bool" where
  \<comment> \<open>the truth value Python gives an optional float: \<^verbatim>\<open>None\<close> and \<^verbatim>\<open>0.0\<close> are false\<close>
  "truthy x = (case x of None \<Rightarrow> False | Some r \<Rightarrow> r \<noteq> 0)"

fun collect_facilities ::
  "pyfloat_ops \<Rightarrow> database \<Rightarrow> real option \<Rightarrow> real option \<Rightarrow> real option \<Rightarrow> facility_row list
     \<Rightarrow> py_error + facility list" where
  "collect_facilities fo db latitude longitude max_distance_miles [] = Inr []"
| "collect_facilities fo db latitude longitude max_distance_miles (row # rows) =
     (case get_facility fo db (f_id row) of
        None \<Rightarrow> collect_facilities fo db latitude longitude max_distance_miles rows
      | Some fac \<Rightarrow>
          (case (latitude, longitude) of
             (Some la, Some lo) \<Rightarrow>
               if la \<noteq> 0 \<and> lo \<noteq> 0 then
                 (case calculate_distance la lo (f_latitude (core fac)) (f_longitude (core fac)) of
                    Inl e \<Rightarrow> Inl e
                  | Inr distance \<Rightarrow>
                      if truthy max_distance_miles
                         \<and> (case max_distance_miles of None \<Rightarrow> False | Some m \<Rightarrow> m < distance)
                      then collect_facilities fo db latitude longitude max_distance_miles rows
                      else
                        (case collect_facilities fo db latitude longitude max_distance_miles rows of
                           Inl e \<Rightarrow> Inl e
                         | Inr facs \<Rightarrow> Inr (fac\<lparr>distance_miles := Some distance\<rparr> # facs)))
               else
                 (case collect_facilities fo db latitude longitude max_distance_miles rows of
                    Inl e \<Rightarrow> Inl e
                  | Inr facs \<Rightarrow> Inr (fac # facs))
           | _ \<Rightarrow>
               (case collect_facilities fo db latitude longitude max_distance_miles rows of
                  Inl e \<Rightarrow> Inl e
                | Inr facs \<Rightarrow> Inr (fac # facs))))"

definition distance_key :: "facility \<Rightarrow> bool \<times> real" where
  \<comment> \<open>\<^verbatim>\<open>x.get('distance_miles', float('inf'))\<close>: a missing distance sorts behind every number\<close>
  "distance_key fac = (case distance_miles fac of None \<Rightarrow> (True, 0) | Some d \<Rightarrow> (False, d))"

definition search_facilities ::
  "pyfloat_ops \<Rightarrow> database \<Rightarrow> string option \<Rightarrow> string option \<Rightarrow> real option
     \<Rightarrow> (string \<times> string) list option \<Rightarrow> real option \<Rightarrow> real option \<Rightarrow> real option
     \<Rightarrow> facility list" where
  "search_facilities fo db facility_type service min_rating attribute_filters
       latitude longitude max_distance_miles =
     (case collect_facilities fo db latitude longitude max_distance_miles
             (filter (row_matches db facility_type service min_rating attribute_filters)
                (facilities db)) of
        Inl e \<Rightarrow> []
      | Inr facs \<Rightarrow>
          if truthy latitude \<and> truthy longitude then sort_key distance_key facs else facs)"

section \<open>The dispatcher\<close>

text \<open>
  \<^verbatim>\<open>_execute_function\<close> (lines 990-1012) calls the handler named by the first argument
  with \<^verbatim>\<open>**arguments\<close>. Python binds the keys of the dictionary to the parameters of
  the handler: a key that is no parameter, or a parameter without default that has no
  key, raises \<^verbatim>\<open>TypeError\<close> before the body of the handler runs. Nothing in
  \<^verbatim>\<open>_execute_function\<close> catches it.
\<close>

definition lookup :: "(string \<times> pyval) list \<Rightarrow> string \<Rightarrow> pyval option" where
  "lookup arguments k = map_of arguments k"

definition binds :: "string list \<Rightarrow> string list \<Rightarrow> (string \<times> pyval) list \<Rightarrow> bool" where
  "binds required optional arguments =
     (list_all (\<lambda>k. k \<in> set (required @ optional)) (map fst arguments)
      \<and> list_all (\<lambda>p. p \<in> set (map fst arguments)) required)"

definition argument :: "(string \<times> pyval) list \<Rightarrow> string \<Rightarrow> pyval \<Rightarrow> pyval" where
  \<comment> \<open>the value bound to a parameter: the one supplied, else the default\<close>
  "argument arguments k dflt = (case lookup arguments k of None \<Rightarrow> dflt | Some v \<Rightarrow> v)"

text \<open>
  The handlers annotate \<^verbatim>\<open>facility_id\<close>, \<^verbatim>\<open>facility_type\<close> and \<^verbatim>\<open>service\<close> as
  strings, and these three values go into SQL statements. The model follows a handler
  only for values of the annotated types; for any other value the result of the handler
  is left open (\<open>None\<close> at the outermost level of the result).
\<close>

definition as_str :: "pyval \<Rightarrow> string option" where
  "as_str v = (case v of VStr s \<Rightarrow> Some s | _ \<Rightarrow> None)"

definition as_optional_str :: "pyval \<Rightarrow> string option option" where
  "as_optional_str v = (case v of VNone \<Rightarrow> Some None | VStr s \<Rightarrow> Some (Some s) | _ \<Rightarrow> None)"

definition opt_float :: "real option \<Rightarrow> pyval" where
  "opt_float x = (case x of None \<Rightarrow> VNone | Some r \<Rightarrow> VFloat r)"

definition opt_str :: "string option \<Rightarrow> pyval" where
  "opt_str x = (case x of None \<Rightarrow> VNone | Some s \<Rightarrow> VStr s)"

definition attributes_value :: "(string \<times> pyval) list \<Rightarrow> pyval" where
  "attributes_value attrs = VDict (map (\<lambda>kv. (VStr (fst kv), snd kv)) attrs)"

definition facility_summary :: "facility \<Rightarrow> (pyval \<times> pyval) list" where
  "facility_summary fac =
     [(VStr ''id'', VStr (f_id (core fac))),
      (VStr ''name'', VStr (f_name (core fac))),
      (VStr ''type'', VStr (f_facility_type (core fac))),
      (VStr ''address'', VStr (f_address (core fac))),
      (VStr ''coordinates'',
         VDict [(VStr ''lat'', VFloat (f_latitude (core fac))),
                (VStr ''lon'', VFloat (f_longitude (core fac)))]),
      (VStr ''services'', VList (map VStr (services fac))),
      (VStr ''rating'', opt_float (f_rating (core fac))),
      (VStr ''phone'', opt_str (f_phone (core fac))),
      (VStr ''attributes'', attributes_value (attributes fac))]"

definition find_healthcare_facilities ::
  "pyfloat_ops \<Rightarrow> database \<Rightarrow> pyval \<Rightarrow> pyval \<Rightarrow> pyval \<Rightarrow> pyval \<Rightarrow> pyval option" where
  "find_healthcare_facilities fo db location facility_type service radius =
     (case (as_optional_str facility_type, as_optional_str service) of
        (Some ft, Some sv) \<Rightarrow>
          (let facilities = search_facilities fo db ft sv None None None None None;
               results = map (\<lambda>fac. VDict (facility_summary fac)) facilities
           in Some (VDict [(VStr ''location'', location),
                           (VStr ''radius_miles'', radius),
                           (VStr ''facilities_found'', VInt (int (length results))),
                           (VStr ''facilities'', VList results)]))
      | _ \<Rightarrow> None)"

definition not_found :: "string \<Rightarrow> pyval" where
  "not_found facility_id =
     VDict [(VStr ''error'', VStr (''Facility '' @ facility_id @ '' not found''))]"

definition get_facility_details :: "pyfloat_ops \<Rightarrow> database \<Rightarrow> pyval \<Rightarrow> pyval option" where
  "get_facility_details fo db facility_id =
     (case as_str facility_id of
        None \<Rightarrow> None
      | Some fid \<Rightarrow>
          (case get_facility fo db fid of
             None \<Rightarrow> Some (not_found fid)
           | Some fac \<Rightarrow>
               Some (VDict (facility_summary fac
                      @ [(VStr ''created_at'', VStr (f_created_at (core fac))),
                         (VStr ''updated_at'', VStr (f_updated_at (core fac))),
                         (VStr ''full_details'', VBool True)]))))"

definition search_facilities_by_service ::
  "pyfloat_ops \<Rightarrow> database \<Rightarrow> pyval \<Rightarrow> pyval \<Rightarrow> pyval \<Rightarrow> pyval option" where
  "search_facilities_by_service fo db service location radius =
     find_healthcare_facilities fo db location VNone service radius"

definition get_patient_health_data :: "pyval \<Rightarrow> pyval \<Rightarrow> pyval" where
  "get_patient_health_data patient_id data_type =
     VDict [(VStr ''patient_id'', patient_id),
            (VStr ''data_type'', data_type),
            (VStr ''message'', VStr ''Patient data retrieval requires authentication''),
            (VStr ''note'',
               VStr ''This is a simulated response. In production, implement secure patient data access.'')]"

text \<open>
  \<^verbatim>\<open>schedule_appointment\<close> (lines 1099-1139). \<open>stamp\<close> is the text of
  \<^verbatim>\<open>datetime.now().strftime('%Y%m%d%H%M%S')\<close>. The stored \<^verbatim>\<open>appointments\<close> attribute is
  used as a list: \<^verbatim>\<open>.append\<close> on a value of another kind raises \<^verbatim>\<open>AttributeError\<close>.
  The result of \<^verbatim>\<open>update_facility_attribute\<close> is not looked at.
\<close>

definition schedule_appointment ::
  "pyfloat_ops \<Rightarrow> string \<Rightarrow> string \<Rightarrow> database \<Rightarrow> pyval \<Rightarrow> pyval \<Rightarrow> pyval \<Rightarrow> pyval
     \<Rightarrow> ((py_error + pyval) \<times> database) option" where
  "schedule_appointment fo now stamp db facility_id service_type date patient_id =
     (case as_str facility_id of
        None \<Rightarrow> None
      | Some fid \<Rightarrow>
          (case get_facility fo db fid of
             None \<Rightarrow> Some (Inr (not_found fid), db)
           | Some fac \<Rightarrow>
               (let appointment_id = ''apt_'' @ stamp;
                    entry = VDict [(VStr ''appointment_id'', VStr appointment_id),
                                   (VStr ''service_type'', service_type),
                                   (VStr ''date'', date),
                                   (VStr ''patient_id'', patient_id),
                                   (VStr ''status'', VStr ''scheduled'')]
                in case (case map_of (attributes fac) ''appointments'' of
                           None \<Rightarrow> Inr [entry]
                         | Some (VList old) \<Rightarrow> Inr (old @ [entry])
                         | Some _ \<Rightarrow> Inl AttributeError) of
                     Inl e \<Rightarrow> Some (Inl e, db)
                   | Inr appointments \<Rightarrow>
                       Some (Inr (VDict [(VStr ''success'', VBool True),
                                         (VStr ''appointment_id'', VStr appointment_id),
                                         (VStr ''facility'', VStr (f_name (core fac))),
                                         (VStr ''facility_id'', facility_id),
                                         (VStr ''service'', service_type),
                                         (VStr ''date'', date),
                                         (VStr ''patient_id'', patient_id),
                                         (VStr ''status'', VStr ''scheduled''),
                                         (VStr ''message'', VStr ''Appointment scheduled successfully'')]),
                             snd (update_facility_attribute fo now db fid ''appointments''
                                    (VList appointments))))))"

definition registered :: "string list" where
  "registered =
     [''find_healthcare_facilities'', ''get_facility_details'', ''search_facilities_by_service'',
      ''get_patient_health_data'', ''schedule_appointment'']"

definition required_of :: "string \<Rightarrow> string list" where
  "required_of name =
     (if name = ''find_healthcare_facilities'' then [''location'']
      else if name = ''get_facility_details'' then [''facility_id'']
      else if name = ''search_facilities_by_service'' then [''service'', ''location'']
      else if name = ''get_patient_health_data'' then [''patient_id'']
      else if name = ''schedule_appointment'' then [''facility_id'', ''service_type'', ''date'']
      else [])"

definition optional_of :: "string \<Rightarrow> string list" where
  "optional_of name =
     (if name = ''find_healthcare_facilities'' then [''facility_type'', ''service'', ''radius'']
      else if name = ''search_facilities_by_service'' then [''radius'']
      else if name = ''get_patient_health_data'' then [''data_type'']
      else if name = ''schedule_appointment'' then [''patient_id'']
      else [])"

definition pure_result :: "database \<Rightarrow> pyval option \<Rightarrow> ((py_error + pyval) \<times> database) option" where
  "pure_result db r = (case r of None \<Rightarrow> None | Some v \<Rightarrow> Some (Inr v, db))"

definition execute_function ::
  "pyfloat_ops \<Rightarrow> string \<Rightarrow> string \<Rightarrow> database \<Rightarrow> string \<Rightarrow> (string \<times> pyval) list
     \<Rightarrow> ((py_error + pyval) \<times> database) option" where
  "execute_function fo now stamp db function_name arguments =
     (if function_name \<in> set registered
         \<and> \<not> binds (required_of function_name) (optional_of function_name) arguments
      then Some (Inl TypeError, db)
      else if function_name = ''find_healthcare_facilities'' then
        pure_result db
          (find_healthcare_facilities fo db
             (argument arguments ''location'' VNone)
             (argument arguments ''facility_type'' VNone)
             (argument arguments ''service'' VNone)
             (argument arguments ''radius'' (VFloat 10)))
      else if function_name = ''get_facility_details'' then
        pure_result db (get_facility_details fo db (argument arguments ''facility_id'' VNone))
      else if function_name = ''search_facilities_by_service'' then
        pure_result db
          (search_facilities_by_service fo db
             (argument arguments ''service'' VNone)
             (argument arguments ''location'' VNone)
             (argument arguments ''radius'' (VFloat 10)))
      else if function_name = ''get_patient_health_data'' then
        pure_result db
          (Some (get_patient_health_data
                   (argument arguments ''patient_id'' VNone)
                   (argument arguments ''data_type'' (VStr ''all''))))
      else if function_name = ''schedule_appointment'' then
        schedule_appointment fo now stamp db
          (argument arguments ''facility_id'' VNone)
          (argument arguments ''service_type'' VNone)
          (argument arguments ''date'' VNone)
          (argument arguments ''patient_id'' VNone)
      else Some (Inr (VDict [(VStr ''error'', VStr (''Unknown function: '' @ function_name))]), db))"

section \<open>Vocabulary of the statements\<close>

text \<open>
  The row that \<^verbatim>\<open>add_facility\<close> and \<^verbatim>\<open>update_facility_attribute\<close> write for one item
  of the attribute dictionary, once \<^verbatim>\<open>json.dumps\<close> has accepted the value.
\<close>

definition attribute_row_of :: "pyfloat_ops \<Rightarrow> string \<Rightarrow> string \<times> pyval \<Rightarrow> attribute_row" where
  "attribute_row_of fo fid kv =
     \<lparr>a_facility_id = fid, attribute_key = fst kv,
      attribute_value = (case attribute_text fo (snd kv) of Inr t \<Rightarrow> t | Inl e \<Rightarrow> []),
      attribute_type = determine_attribute_type (snd kv)\<rparr>"

definition items_of :: "('k \<times> 'v) list option \<Rightarrow> ('k \<times> 'v) list" where
  "items_of d = (case d of None \<Rightarrow> [] | Some items \<Rightarrow> items)"

text \<open>
  A small store for the concrete instances: the first facility of
  \<^verbatim>\<open>_initialize_sample_data\<close> (lines 864-882) with two of its services and two of its
  attributes, as \<^verbatim>\<open>add_facility\<close> stores them. No instance below holds a float, so the
  float operations chosen here are never consulted.
\<close>

definition sample_float_ops :: pyfloat_ops where
  "sample_float_ops = \<lparr>float_repr = (\<lambda>x. ''0.0''), float_of_str = (\<lambda>s. None)\<rparr>"

definition hosp_001 :: facility_row where
  "hosp_001 =
     \<lparr>f_id = ''hosp_001'', f_name = ''City General Hospital'', f_facility_type = ''hospital'',
      f_address = ''123 Main St, City, State 12345'', f_latitude = 40.7128,
      f_longitude = - 74.0060, f_rating = Some 4.5, f_phone = Some ''(555) 123-4567'',
      f_created_at = ''2024-12-01 09:00:00'', f_updated_at = ''2024-12-01 09:00:00''\<rparr>"

definition sample_db :: database where
  "sample_db =
     \<lparr>facilities = [hosp_001],
      facility_services =
        [\<lparr>s_facility_id = ''hosp_001'', service_name = ''emergency''\<rparr>,
         \<lparr>s_facility_id = ''hosp_001'', service_name = ''surgery''\<rparr>],
      facility_attributes =
        [\<lparr>a_facility_id = ''hosp_001'', attribute_key = ''bed_count'',
          attribute_value = ''250'', attribute_type = ''integer''\<rparr>,
         \<lparr>a_facility_id = ''hosp_001'', attribute_key = ''emergency_room'',
          attribute_value = ''true'', attribute_type = ''boolean''\<rparr>]\<rparr>"


text \<open>
  Two calls on the sample store: a re-add of \<^verbatim>\<open>hosp_001\<close> with new services and one
  attribute, and the same call with a value that \<^verbatim>\<open>json.dumps\<close> rejects.
\<close>

definition sample_readd :: "bool \<times> database" where
  "sample_readd =
     add_facility sample_float_ops ''2024-12-02 10:00:00'' sample_db ''hosp_001''
       ''City General Hospital'' ''hospital'' ''123 Main St'' 40.7128 (- 74.0060)
       [''mri'', ''xray''] (Some 4.5) None (Some [(''bed_count'', VInt 300)])"

definition sample_failed_readd :: "bool \<times> database" where
  "sample_failed_readd =
     add_facility sample_float_ops ''2024-12-02 10:00:00'' sample_db ''hosp_001''
       ''City General Hospital'' ''hospital'' ''123 Main St'' 40.7128 (- 74.0060)
       [''mri'', ''xray''] (Some 4.5) None
       (Some [(''bed_count'', VInt 300), (''tags'', VOther)])"


text \<open>
  The round trip of one attribute value: the text and tag that \<^verbatim>\<open>add_facility\<close> stores
  for it, read back by \<^verbatim>\<open>_parse_attribute_value\<close>.
\<close>

definition round_trip :: "pyfloat_ops \<Rightarrow> pyval \<Rightarrow> py_error + pyval" where
  "round_trip fo v =
     (case attribute_text fo v of
        Inl e \<Rightarrow> Inl e
      | Inr value_str \<Rightarrow> parse_attribute_value fo value_str (determine_attribute_type v))"






section \<open>Digits and characters\<close>








section \<open>Strings through \<^verbatim>\<open>json.dumps\<close> and back\<close>



lemma cons_result_Some [simp]: "cons_result c (Some (s, rest)) = Some (c # s, rest)"
  by (simp add: cons_result_def)


section \<open>Integers through \<^verbatim>\<open>int.__repr__\<close> and back\<close>


lemma digits_of_nat_not_Nil: "digits_of_nat n \<noteq> []"
  by (simp add: digits_of_nat.simps [of n])









section \<open>Integers through the number pattern of \<^verbatim>\<open>json.loads\<close>\<close>





section \<open>Values through \<^verbatim>\<open>json.dumps\<close> and \<^verbatim>\<open>json.loads\<close>\<close>














section \<open>The round trip of attribute values\<close>

text \<open>
  A float is written by \<^verbatim>\<open>float.__repr__\<close> and read by \<^verbatim>\<open>float(text)\<close>; what comes back
  is what these two give.
\<close>

lemma round_trip_float:
  "round_trip fo (VFloat r) =
     (case float_of_str fo (float_repr fo r) of
        None \<Rightarrow> Inl ValueError
      | Some x \<Rightarrow> Inr (VFloat x))"
  by (simp add: round_trip_def attribute_text_def json_dumps_def determine_attribute_type_def
      parse_attribute_value_def)



section \<open>The insertion loops of \<^verbatim>\<open>add_facility\<close>\<close>

lemma insert_services_Inr:
  "insert_services fid ss conn = Inr conn' \<Longrightarrow>
     conn' = conn\<lparr>facility_services :=
               facility_services conn @ map (\<lambda>s. \<lparr>s_facility_id = fid, service_name = s\<rparr>) ss\<rparr>"
proof (induction ss arbitrary: conn)
  case Nil
  then show ?case by simp
next
  case (Cons s ss)
  from Cons.prems obtain c1 where a: "sql_insert_service fid s conn = Inr c1"
    and b: "insert_services fid ss c1 = Inr conn'"
    by (auto split: sum.splits)
  from a have "c1 = conn\<lparr>facility_services :=
      facility_services conn @ [\<lparr>s_facility_id = fid, service_name = s\<rparr>]\<rparr>"
    by (auto simp: sql_insert_service_def split: if_splits)
  with Cons.IH [OF b] show ?case by simp
qed

lemma insert_services_duplicate:
  "\<not> distinct ss \<or> (\<exists>s \<in> set ss. s \<in> set (services_of conn fid)) \<Longrightarrow>
     insert_services fid ss conn = Inl IntegrityError"
proof (induction ss arbitrary: conn)
  case Nil
  then show ?case by simp
next
  case (Cons s ss)
  show ?case
  proof (cases "sql_insert_service fid s conn")
    case (Inl e)
    then show ?thesis by (auto simp: sql_insert_service_def split: if_splits)
  next
    case (Inr conn')
    then have c': "conn' = conn\<lparr>facility_services :=
        facility_services conn @ [\<lparr>s_facility_id = fid, service_name = s\<rparr>]\<rparr>"
      and fresh: "s \<notin> set (services_of conn fid)"
      by (auto simp: sql_insert_service_def services_of_def list_ex_iff split: if_splits)
    have so: "set (services_of conn' fid) = insert s (set (services_of conn fid))"
      by (simp add: c' services_of_def)
    from Cons.prems fresh have "\<not> distinct ss \<or> (\<exists>x \<in> set ss. x \<in> set (services_of conn' fid))"
      by (auto simp: so)
    then have "insert_services fid ss conn' = Inl IntegrityError" by (rule Cons.IH)
    with Inr show ?thesis by simp
  qed
qed

lemma insert_attributes_Inr:
  "insert_attributes fo fid items conn = Inr conn' \<Longrightarrow>
     conn' = conn\<lparr>facility_attributes :=
               facility_attributes conn @ map (attribute_row_of fo fid) items\<rparr>"
proof (induction items arbitrary: conn)
  case Nil
  then show ?case by simp
next
  case (Cons kv items)
  from Cons.prems obtain t c1 where t: "attribute_text fo (snd kv) = Inr t"
    and a: "sql_insert_attribute \<lparr>a_facility_id = fid, attribute_key = fst kv,
              attribute_value = t, attribute_type = determine_attribute_type (snd kv)\<rparr> conn = Inr c1"
    and b: "insert_attributes fo fid items c1 = Inr conn'"
    by (auto split: sum.splits)
  from a t have "c1 = conn\<lparr>facility_attributes :=
      facility_attributes conn @ [attribute_row_of fo fid kv]\<rparr>"
    by (auto simp: sql_insert_attribute_def attribute_row_of_def split: if_splits)
  with Cons.IH [OF b] show ?case by simp
qed

lemma find_replaced:
  "P x \<Longrightarrow> find P (filter (\<lambda>r. \<not> P r) xs @ [x]) = Some x"
  by (induction xs) auto

lemma filter_fresh_rows:
  "filter (\<lambda>r. a_facility_id r = fid) (map (attribute_row_of fo fid) items)
     = map (attribute_row_of fo fid) items"
  by (induction items) (auto simp: attribute_row_of_def)

text \<open>
  What a body that ran to its end has written: the new facility row, and for this id
  exactly the new service rows and the new attribute rows.
\<close>

lemma add_facility_body_Inr:
  assumes "add_facility_body fo now fid name ftype address lat lon svcs rating phone attrs conn
             = Inr (ok, conn')"
  shows "ok"
    and "facility_of conn' fid =
           Some \<lparr>f_id = fid, f_name = name, f_facility_type = ftype, f_address = address,
                 f_latitude = lat, f_longitude = lon, f_rating = rating, f_phone = phone,
                 f_created_at = now, f_updated_at = now\<rparr>"
    and "services_of conn' fid = svcs"
    and "attributes_of conn' fid = map (attribute_row_of fo fid) (items_of attrs)"
proof -
  let ?row = "\<lparr>f_id = fid, f_name = name, f_facility_type = ftype, f_address = address,
                 f_latitude = lat, f_longitude = lon, f_rating = rating, f_phone = phone,
                 f_created_at = now, f_updated_at = now\<rparr>"
  let ?c2 = "sql_delete_services fid (sql_replace_facility ?row conn)"
  from assms obtain c3 where c3: "insert_services fid svcs ?c2 = Inr c3"
    by (auto simp: add_facility_body_def Let_def split: sum.splits)
  let ?c4 = "sql_delete_attributes fid c3"
  from assms c3 obtain c5 where
    c5: "(case attrs of None \<Rightarrow> Inr ?c4 | Some items \<Rightarrow> insert_attributes fo fid items ?c4) = Inr c5"
    and res: "ok = True" "conn' = c5"
    by (auto simp: add_facility_body_def Let_def split: sum.splits)
  have c5_eq: "c5 = ?c4\<lparr>facility_attributes :=
      facility_attributes ?c4 @ map (attribute_row_of fo fid) (items_of attrs)\<rparr>"
    using c5 by (cases attrs) (auto simp: items_of_def dest: insert_attributes_Inr)
  note c3_eq = insert_services_Inr [OF c3]
  show "ok" using res by simp
  show "facility_of conn' fid = Some ?row"
    unfolding res c5_eq c3_eq
    by (simp add: facility_of_def sql_delete_attributes_def sql_delete_services_def
        sql_replace_facility_def find_replaced [where P = "\<lambda>r. f_id r = fid"])
  show "services_of conn' fid = svcs"
    unfolding res c5_eq c3_eq
    by (simp add: services_of_def sql_delete_attributes_def sql_delete_services_def
        sql_replace_facility_def filter_map comp_def)
  show "attributes_of conn' fid = map (attribute_row_of fo fid) (items_of attrs)"
    unfolding res c5_eq c3_eq
    by (simp add: attributes_of_def sql_delete_attributes_def filter_fresh_rows)
qed

lemma add_facility_cases:
  "(\<exists>conn'. add_facility_body fo now fid name ftype address lat lon svcs rating phone attrs db
              = Inr (True, conn')
          \<and> add_facility fo now db fid name ftype address lat lon svcs rating phone attrs
              = (True, conn'))
   \<or> ((\<exists>e. add_facility_body fo now fid name ftype address lat lon svcs rating phone attrs db
              = Inl e)
          \<and> add_facility fo now db fid name ftype address lat lon svcs rating phone attrs
              = (False, db))"
proof (cases "add_facility_body fo now fid name ftype address lat lon svcs rating phone attrs db")
  case (Inl e)
  then show ?thesis by (simp add: add_facility_def get_connection_def)
next
  case (Inr res)
  obtain ok conn' where res: "res = (ok, conn')" by (cases res)
  with Inr add_facility_body_Inr(1) [of fo now fid name ftype address lat lon svcs rating phone
      attrs db ok conn'] have "ok" by simp
  with Inr res show ?thesis by (simp add: add_facility_def get_connection_def)
qed

section \<open>Writes are all-or-nothing\<close>

text \<open>
  Claim C2. For every \<^verbatim>\<open>add_facility\<close> call, either the call reports success and the
  three writes are persisted together (the facility row is the new one, the services
  of the id are the supplied list, its attribute rows are the supplied items), or the
  call returns \<^verbatim>\<open>False\<close> and the store is exactly the store before the call. No third
  outcome exists, so a store holding part of the new services or attributes is never
  left behind.
\<close>

theorem add_facility_all_or_nothing:
  "(case add_facility fo now db fid name ftype address lat lon svcs rating phone attrs of
      (ok, db') \<Rightarrow>
        (ok \<and> facility_of db' fid =
                Some \<lparr>f_id = fid, f_name = name, f_facility_type = ftype, f_address = address,
                      f_latitude = lat, f_longitude = lon, f_rating = rating, f_phone = phone,
                      f_created_at = now, f_updated_at = now\<rparr>
            \<and> services_of db' fid = svcs
            \<and> attributes_of db' fid = map (attribute_row_of fo fid) (items_of attrs))
        \<or> (\<not> ok \<and> db' = db))"
proof -
  consider conn' where
      "add_facility_body fo now fid name ftype address lat lon svcs rating phone attrs db
         = Inr (True, conn')"
      "add_facility fo now db fid name ftype address lat lon svcs rating phone attrs
         = (True, conn')"
    | "add_facility fo now db fid name ftype address lat lon svcs rating phone attrs = (False, db)"
    using add_facility_cases [of fo now fid name ftype address lat lon svcs rating phone attrs db]
    by blast
  then show ?thesis
  proof cases
    case 1
    from add_facility_body_Inr(2-4) [OF 1(1)] 1(2) show ?thesis by simp
  next
    case 2
    then show ?thesis by simp
  qed
qed

text \<open>
  Two instances on the sample store. A re-add of \<^verbatim>\<open>hosp_001\<close> with the services
  \<^verbatim>\<open>["mri", "xray"]\<close> succeeds and leaves exactly these two; the same call with a set
  in the attribute dictionary fails in the third step, after the row and the services
  were written on the connection, and leaves the store as it was.
\<close>

theorem add_facility_all_or_nothing_witness:
  "fst sample_readd
   \<and> services_of (snd sample_readd) ''hosp_001'' = [''mri'', ''xray'']
   \<and> attributes_of (snd sample_readd) ''hosp_001''
     = [\<lparr>a_facility_id = ''hosp_001'', attribute_key = ''bed_count'',
         attribute_value = ''300'', attribute_type = ''integer''\<rparr>]
   \<and> sample_failed_readd = (False, sample_db)"
proof -
  have ok: "fst sample_readd"
    by code_simp
  have bad: "\<not> fst sample_failed_readd"
    by code_simp
  have row: "map (attribute_row_of sample_float_ops ''hosp_001'')
                (items_of (Some [(''bed_count'', VInt 300)]))
      = [\<lparr>a_facility_id = ''hosp_001'', attribute_key = ''bed_count'',
          attribute_value = ''300'', attribute_type = ''integer''\<rparr>]"
    by code_simp
  note inst = add_facility_all_or_nothing [where fo = sample_float_ops
      and now = "''2024-12-02 10:00:00''" and db = sample_db and fid = "''hosp_001''"
      and name = "''City General Hospital''" and ftype = "''hospital''"
      and address = "''123 Main St''" and lat = "40.7128" and lon = "- 74.0060"
      and svcs = "[''mri'', ''xray'']" and rating = "Some 4.5" and phone = None]
  show ?thesis
    using ok bad row inst [where attrs = "Some [(''bed_count'', VInt 300)]"]
      inst [where attrs = "Some [(''bed_count'', VInt 300), (''tags'', VOther)]"]
    unfolding sample_readd_def [symmetric] sample_failed_readd_def [symmetric]
    by (simp add: case_prod_beta prod_eq_iff)
qed
section \<open>Re-adding a facility replaces it\<close>



section \<open>A repeated service name aborts the write\<close>

text \<open>
  Claim C10. For every \<^verbatim>\<open>add_facility\<close> call whose services list names a service
  more than once, the second insert of that name violates
  \<^verbatim>\<open>UNIQUE(facility_id, service_name)\<close>: the call returns \<^verbatim>\<open>False\<close> and the store is the
  store before the call, although the facility row had been written on the connection
  by then.
\<close>

theorem add_facility_duplicate_service:
  assumes "\<not> distinct svcs"
  shows "add_facility fo now db fid name ftype address lat lon svcs rating phone attrs
           = (False, db)
       \<and> facility_of
           (sql_replace_facility
              \<lparr>f_id = fid, f_name = name, f_facility_type = ftype, f_address = address,
               f_latitude = lat, f_longitude = lon, f_rating = rating, f_phone = phone,
               f_created_at = now, f_updated_at = now\<rparr> db) fid \<noteq> None"
proof -
  let ?row = "\<lparr>f_id = fid, f_name = name, f_facility_type = ftype, f_address = address,
               f_latitude = lat, f_longitude = lon, f_rating = rating, f_phone = phone,
               f_created_at = now, f_updated_at = now\<rparr>"
  from assms
  have "insert_services fid svcs (sql_delete_services fid (sql_replace_facility ?row db))
          = Inl IntegrityError"
    by (intro insert_services_duplicate) simp
  then have "add_facility_body fo now fid name ftype address lat lon svcs rating phone attrs db
               = Inl IntegrityError"
    by (simp add: add_facility_body_def)
  then have "add_facility fo now db fid name ftype address lat lon svcs rating phone attrs
               = (False, db)"
    by (simp add: add_facility_def get_connection_def)
  moreover have "facility_of (sql_replace_facility ?row db) fid \<noteq> None"
    by (simp add: facility_of_def sql_replace_facility_def
        find_replaced [where P = "\<lambda>r. f_id r = fid"])
  ultimately show ?thesis by simp
qed

theorem add_facility_duplicate_service_witness:
  "\<not> distinct [''mri'', ''xray'', ''mri'']
   \<and> add_facility sample_float_ops ''2024-12-02 10:00:00'' sample_db ''clinic_001''
        ''Downtown Health Clinic'' ''clinic'' ''456 Oak Ave'' 40.7589 (- 73.9851)
        [''mri'', ''xray'', ''mri''] (Some 4.2) None None = (False, sample_db)"
proof -
  have dup: "\<not> distinct [''mri'', ''xray'', ''mri'']" by simp
  from conjunct1 [OF add_facility_duplicate_service [OF dup]] dup show ?thesis by simp
qed
section \<open>Deleting a facility\<close>

lemma get_facility_absent:
  "facility_of db fid = None \<Longrightarrow> get_facility fo db fid = None"
  by (simp add: get_facility_def get_connection_def get_facility_body_def)

lemma facility_of_deleted:
  "facility_of (sql_delete_facility fid db) fid = None"
  by (simp add: facility_of_def sql_delete_facility_def find_None_iff)

text \<open>
  \<^verbatim>\<open>delete_facility\<close> removes the row of the facility, so \<^verbatim>\<open>get_facility\<close> reports
  not-found afterwards; the rows of the two child tables stay as they were.
\<close>

lemma delete_facility_eq:
  "delete_facility db fid = (True, sql_delete_facility fid db)"
  by (simp add: delete_facility_def get_connection_def)

lemma get_facility_deleted:
  "get_facility fo (sql_delete_facility fid db) fid = None"
  by (rule get_facility_absent) (rule facility_of_deleted)

lemma children_of_deleted:
  "services_of (sql_delete_facility fid db) g = services_of db g"
  "attributes_of (sql_delete_facility fid db) g = attributes_of db g"
  by (simp_all add: services_of_def attributes_of_def sql_delete_facility_def)

text \<open>
  Claim C4 says that after \<^verbatim>\<open>delete_facility(id)\<close> the direct lookups of the services
  and attributes of the id return nothing. On the sample store the call for
  \<^verbatim>\<open>hosp_001\<close> reports success and \<^verbatim>\<open>get_facility\<close> no longer finds the facility,
  but both service rows and both attribute rows of \<^verbatim>\<open>hosp_001\<close> are still stored.
\<close>

theorem delete_facility_keeps_child_rows:
  "fst (delete_facility sample_db ''hosp_001'')
   \<and> get_facility sample_float_ops (snd (delete_facility sample_db ''hosp_001'')) ''hosp_001''
       = None
   \<and> services_of (snd (delete_facility sample_db ''hosp_001'')) ''hosp_001''
       = [''emergency'', ''surgery'']
   \<and> map attribute_key (attributes_of (snd (delete_facility sample_db ''hosp_001'')) ''hosp_001'')
       = [''bed_count'', ''emergency_room'']"
proof -
  have "services_of sample_db ''hosp_001'' = [''emergency'', ''surgery'']"
    by code_simp
  moreover have "map attribute_key (attributes_of sample_db ''hosp_001'')
      = [''bed_count'', ''emergency_room'']"
    by code_simp
  ultimately show ?thesis
    by (simp add: delete_facility_eq get_facility_deleted children_of_deleted)
qed

section \<open>Updating an attribute of a facility that is not stored\<close>



section \<open>What a search returns\<close>




section \<open>A numeric attribute whose text is no number\<close>




section \<open>The haversine formula over the real numbers\<close>

text \<open>
  Over the real numbers the term under the square root lies between 0 and 1 for all
  arguments, so neither \<^verbatim>\<open>math.sqrt\<close> nor \<^verbatim>\<open>math.asin\<close> can fail there; the distance is
  never negative, it is zero between a point and itself, and it is symmetric. None of
  this says what the rounded arithmetic of \<^verbatim>\<open>float\<close> does near the ends of the interval.
\<close>

lemma half_angle: "cos x = 1 - 2 * (sin (x / 2))\<^sup>2" for x :: real
proof -
  have "cos x = cos (2 * (x / 2))" by simp
  also have "\<dots> = 1 - 2 * (sin (x / 2))\<^sup>2" by (rule cos_double_sin)
  finally show ?thesis .
qed

lemma haversine_a_split:
  "haversine_a lat1 lon1 lat2 lon2 =
     (sin (radians (lat2 - lat1) / 2))\<^sup>2 * (1 - (sin (radians (lon2 - lon1) / 2))\<^sup>2)
     + (sin (radians (lon2 - lon1) / 2))\<^sup>2 * (1 - (sin (radians (lat2 + lat1) / 2))\<^sup>2)"
proof -
  define p where "p = radians lat1"
  define q where "q = radians lat2"
  define s where "s = (sin (radians (lat2 - lat1) / 2))\<^sup>2"
  define u where "u = (sin (radians (lon2 - lon1) / 2))\<^sup>2"
  define t where "t = (sin (radians (lat2 + lat1) / 2))\<^sup>2"
  have d: "radians (lat2 - lat1) = q - p" "radians (lat2 + lat1) = q + p"
    by (simp_all add: radians_def p_def q_def algebra_simps diff_divide_distrib add_divide_distrib)
  have "cos p * cos q = (cos (q - p) + cos (q + p)) / 2"
    by (simp add: cos_diff cos_add)
  also have "cos (q - p) = 1 - 2 * s"
    unfolding s_def d by (rule half_angle)
  also have "cos (q + p) = 1 - 2 * t"
    unfolding t_def d by (rule half_angle)
  finally have c: "cos p * cos q = 1 - s - t"
    by (simp add: field_simps)
  have "haversine_a lat1 lon1 lat2 lon2 = s + (cos p * cos q) * u"
    by (simp add: haversine_a_def Let_def s_def u_def p_def q_def)
  also have "\<dots> = s * (1 - u) + u * (1 - t)"
    unfolding c by (simp add: algebra_simps)
  finally show ?thesis
    by (simp only: s_def u_def t_def)
qed

lemma sin_squared_unit: "0 \<le> (sin x)\<^sup>2 \<and> (sin x :: real)\<^sup>2 \<le> 1"
proof -
  have "(sin x)\<^sup>2 + (cos x)\<^sup>2 = 1" by simp
  moreover have "0 \<le> (cos x)\<^sup>2" by simp
  ultimately have "(sin x)\<^sup>2 \<le> 1" by linarith
  then show ?thesis by simp
qed

lemma haversine_a_bounds:
  "0 \<le> haversine_a lat1 lon1 lat2 lon2" "haversine_a lat1 lon1 lat2 lon2 \<le> 1"
proof -
  define s where "s = (sin (radians (lat2 - lat1) / 2))\<^sup>2"
  define u where "u = (sin (radians (lon2 - lon1) / 2))\<^sup>2"
  define t where "t = (sin (radians (lat2 + lat1) / 2))\<^sup>2"
  have b: "0 \<le> s" "s \<le> 1" "0 \<le> u" "u \<le> 1" "0 \<le> t" "t \<le> 1"
    using sin_squared_unit by (simp_all add: s_def u_def t_def)
  have a: "haversine_a lat1 lon1 lat2 lon2 = s * (1 - u) + u * (1 - t)"
    by (simp add: haversine_a_split s_def u_def t_def)
  from b have "0 \<le> s * (1 - u)" "0 \<le> u * (1 - t)"
    by simp_all
  then show "0 \<le> haversine_a lat1 lon1 lat2 lon2"
    unfolding a by linarith
  from b have "0 \<le> (1 - s) * (1 - u)" "0 \<le> u * t"
    by simp_all
  moreover have "1 - (s * (1 - u) + u * (1 - t)) = (1 - s) * (1 - u) + u * t"
    by (simp add: algebra_simps)
  ultimately show "haversine_a lat1 lon1 lat2 lon2 \<le> 1"
    unfolding a by linarith
qed

lemma calculate_distance_real:
  "calculate_distance lat1 lon1 lat2 lon2
     = Inr (3959 * (2 * arcsin (sqrt (haversine_a lat1 lon1 lat2 lon2))))"
  "0 \<le> 3959 * (2 * arcsin (sqrt (haversine_a lat1 lon1 lat2 lon2)))"
proof -
  note b = haversine_a_bounds [of lat1 lon1 lat2 lon2]
  from b have r: "0 \<le> sqrt (haversine_a lat1 lon1 lat2 lon2)"
    "sqrt (haversine_a lat1 lon1 lat2 lon2) \<le> 1"
    by simp_all
  with b show "calculate_distance lat1 lon1 lat2 lon2
      = Inr (3959 * (2 * arcsin (sqrt (haversine_a lat1 lon1 lat2 lon2))))"
    by (simp add: calculate_distance_def Let_def)
  from r have "arcsin 0 \<le> arcsin (sqrt (haversine_a lat1 lon1 lat2 lon2))"
    by (intro arcsin_le_arcsin) simp_all
  then show "0 \<le> 3959 * (2 * arcsin (sqrt (haversine_a lat1 lon1 lat2 lon2)))"
    by simp
qed

lemma calculate_distance_same_point: "calculate_distance lat lon lat lon = Inr 0"
  by (simp add: calculate_distance_def haversine_a_def radians_def)

lemma calculate_distance_symmetric:
  "calculate_distance lat1 lon1 lat2 lon2 = calculate_distance lat2 lon2 lat1 lon1"
proof -
  have neg: "sin (radians (x - y) / 2) = - sin (radians (y - x) / 2)" for x y
  proof -
    have "radians (x - y) / 2 = - (radians (y - x) / 2)"
      by (simp add: radians_def algebra_simps diff_divide_distrib)
    then have "sin (radians (x - y) / 2) = sin (- (radians (y - x) / 2))"
      by (rule arg_cong)
    also have "\<dots> = - sin (radians (y - x) / 2)"
      by (rule sin_minus)
    finally show ?thesis .
  qed
  have sq: "(sin (radians (x - y) / 2))\<^sup>2 = (sin (radians (y - x) / 2))\<^sup>2" for x y
    unfolding neg [of x y] by (rule power2_minus)
  have "haversine_a lat1 lon1 lat2 lon2 = haversine_a lat2 lon2 lat1 lon1"
    unfolding haversine_a_def Let_def sq [of lat2 lat1] sq [of lon2 lon1]
    by (simp add: mult.commute)
  then show ?thesis
    by (simp add: calculate_distance_def)
qed

text \<open>
  From the point (0.0, -74.006) on the equator to the sample facility at
  (40.7128, -74.006) the formula gives 3959 * 40.7128 * pi / 180 miles, about 2813 and
  far beyond a radius of 20 miles.
\<close>

lemma distance_from_equator:
  "calculate_distance 0 (- 74.0060) 40.7128 (- 74.0060) = Inr (3959 * (40.7128 * pi / 180))"
  "20 < 3959 * (40.7128 * pi / 180)"
proof -
  define x where "x = (40.7128 * pi / 180) / 2"
  have x: "0 \<le> x" "x \<le> pi / 2"
    by (simp_all add: x_def field_simps)
  then have s: "0 \<le> sin x"
    by (intro sin_ge_zero) (use pi_ge_zero in linarith)+
  have "haversine_a 0 (- 74.0060) 40.7128 (- 74.0060) = (sin x)\<^sup>2"
    by (simp add: haversine_a_def radians_def x_def)
  moreover have "sqrt ((sin x)\<^sup>2) = sin x"
    using s by simp
  moreover have "arcsin (sin x) = x"
    using x by (intro arcsin_sin) (use pi_ge_zero in linarith)+
  ultimately have "3959 * (2 * arcsin (sqrt (haversine_a 0 (- 74.0060) 40.7128 (- 74.0060))))
      = 3959 * (40.7128 * pi / 180)"
    by (simp add: x_def)
  then show "calculate_distance 0 (- 74.0060) 40.7128 (- 74.0060)
      = Inr (3959 * (40.7128 * pi / 180))"
    by (simp only: calculate_distance_real(1))
  have "2 \<le> pi" by (rule pi_ge_two)
  then show "20 < 3959 * (40.7128 * pi / 180)"
    by (simp add: field_simps)
qed
section \<open>Searching around a reference point\<close>

text \<open>
  With a reference point whose latitude and longitude are both different from zero, the
  loop attaches to every facility it keeps the distance that \<^verbatim>\<open>_calculate_distance\<close>
  returned, and with a radius different from zero it keeps no facility beyond the radius.
\<close>

lemma collect_facilities_distances:
  assumes "la \<noteq> 0" and "lo \<noteq> 0"
  shows "collect_facilities fo db (Some la) (Some lo) md rows = Inr facs \<Longrightarrow> f \<in> set facs \<Longrightarrow>
     \<exists>d. distance_miles f = Some d
        \<and> calculate_distance la lo (f_latitude (core f)) (f_longitude (core f)) = Inr d
        \<and> (\<forall>m. md = Some m \<and> m \<noteq> 0 \<longrightarrow> d \<le> m)"
proof (induction rows arbitrary: facs)
  case Nil
  then show ?case by simp
next
  case (Cons row rows)
  show ?case
  proof (cases "get_facility fo db (f_id row)")
    case None
    with Cons show ?thesis by auto
  next
    case (Some fac)
    from Cons.prems(1) Some assms obtain d rest where
      d: "calculate_distance la lo (f_latitude (core fac)) (f_longitude (core fac)) = Inr d"
      and rest: "collect_facilities fo db (Some la) (Some lo) md rows = Inr rest"
      and facs: "facs = rest
               \<or> (facs = fac\<lparr>distance_miles := Some d\<rparr> # rest
                  \<and> \<not> (truthy md \<and> (case md of None \<Rightarrow> False | Some m \<Rightarrow> m < d)))"
      by (auto split: sum.splits if_splits)
    from facs Cons.prems(2) consider "f \<in> set rest"
      | "f = fac\<lparr>distance_miles := Some d\<rparr>"
        "\<not> (truthy md \<and> (case md of None \<Rightarrow> False | Some m \<Rightarrow> m < d))"
      by auto
    then show ?thesis
    proof cases
      case 1
      from Cons.IH [OF rest 1] show ?thesis .
    next
      case 2
      with d show ?thesis by (auto simp: truthy_def)
    qed
  qed
qed

lemma search_facilities_with_reference_point:
  assumes "la \<noteq> 0" and "lo \<noteq> 0"
  shows "(\<forall>f \<in> set (search_facilities fo db ft sv mr af (Some la) (Some lo) md).
            \<exists>d. distance_miles f = Some d
               \<and> calculate_distance la lo (f_latitude (core f)) (f_longitude (core f)) = Inr d
               \<and> (\<forall>m. md = Some m \<and> m \<noteq> 0 \<longrightarrow> d \<le> m))
       \<and> sorted (map distance_key (search_facilities fo db ft sv mr af (Some la) (Some lo) md))"
proof (cases "collect_facilities fo db (Some la) (Some lo) md
                (filter (row_matches db ft sv mr af) (facilities db))")
  case (Inl e)
  then show ?thesis by (simp add: search_facilities_def)
next
  case (Inr facs)
  with assms have s: "search_facilities fo db ft sv mr af (Some la) (Some lo) md
      = sort_key distance_key facs"
    by (simp add: search_facilities_def truthy_def)
  show ?thesis
    unfolding s using collect_facilities_distances [OF assms Inr] by simp
qed

text \<open>
  Claim C5 says that whenever a reference latitude and longitude are supplied, every
  returned facility carries its distance and none lies beyond the radius. The search
  below supplies the reference point (0.0, -74.006), on the equator, and a radius of
  20 miles. The one facility of the sample store, at latitude 40.7128 and more than
  2800 miles away (\<open>distance_from_equator\<close>), is returned, and no distance is attached
  to it.
\<close>

theorem search_from_equator_attaches_no_distance:
  "search_facilities sample_float_ops sample_db None None None None
      (Some 0) (Some (- 74.0060)) (Some 20)
     = [\<lparr>core = hosp_001, services = [''emergency'', ''surgery''],
         attributes = [(''bed_count'', VInt 250), (''emergency_room'', VBool True)],
         distance_miles = None\<rparr>]"
proof -
  have g: "get_facility sample_float_ops sample_db ''hosp_001''
      = Some \<lparr>core = hosp_001, services = [''emergency'', ''surgery''],
               attributes = [(''bed_count'', VInt 250), (''emergency_room'', VBool True)],
               distance_miles = None\<rparr>"
    by code_simp
  have rows: "filter (row_matches sample_db None None None None) (facilities sample_db)
      = [hosp_001]"
    by (simp add: row_matches_def sample_db_def)
  have "f_id hosp_001 = ''hosp_001''"
    by (simp add: hosp_001_def)
  with g rows show ?thesis
    by (simp add: search_facilities_def truthy_def)
qed
section \<open>Dispatching a function call\<close>

text \<open>
  Claim C6 says that no dispatch lets an exception escape, and that a registered name
  whose arguments lack a required key returns an error payload. The call
  \<^verbatim>\<open>_execute_function("find_healthcare_facilities", {})\<close> lacks \<^verbatim>\<open>location\<close>: it raises
  \<^verbatim>\<open>TypeError\<close>, and the store is untouched.
\<close>

theorem execute_function_missing_location_raises:
  "execute_function sample_float_ops ''2024-12-02 10:00:00'' ''20241202100000'' sample_db
      ''find_healthcare_facilities'' [] = Some (Inl TypeError, sample_db)"
  by (simp add: execute_function_def registered_def required_of_def optional_of_def binds_def)

text \<open>
  Claim C6 as amended. A name outside the five registered operations returns the
  payload \<^verbatim>\<open>{"error": "Unknown function: <name>"}\<close>. A registered name whose argument
  mapping lacks a required key, or holds a key that is no parameter of the handler,
  raises \<^verbatim>\<open>TypeError\<close>, which \<^verbatim>\<open>_execute_function\<close> passes on to its caller; the store is
  unchanged in both cases.
\<close>

theorem execute_function_unknown_or_unbound:
  "(name \<notin> set registered \<longrightarrow>
      execute_function fo now stamp db name arguments
        = Some (Inr (VDict [(VStr ''error'', VStr (''Unknown function: '' @ name))]), db))
   \<and> (name \<in> set registered
        \<and> ((\<exists>k \<in> set (required_of name). k \<notin> fst ` set arguments)
           \<or> (\<exists>k \<in> fst ` set arguments. k \<notin> set (required_of name) \<union> set (optional_of name)))
      \<longrightarrow> execute_function fo now stamp db name arguments = Some (Inl TypeError, db))"
proof (intro conjI impI)
  assume "name \<notin> set registered"
  then show "execute_function fo now stamp db name arguments
      = Some (Inr (VDict [(VStr ''error'', VStr (''Unknown function: '' @ name))]), db)"
    by (simp add: execute_function_def registered_def)
next
  assume a: "name \<in> set registered
      \<and> ((\<exists>k \<in> set (required_of name). k \<notin> fst ` set arguments)
         \<or> (\<exists>k \<in> fst ` set arguments. k \<notin> set (required_of name) \<union> set (optional_of name)))"
  then have "\<not> binds (required_of name) (optional_of name) arguments"
    by (auto simp: binds_def list_all_iff)
  with a show "execute_function fo now stamp db name arguments = Some (Inl TypeError, db)"
    by (simp add: execute_function_def)
qed

theorem execute_function_unknown_or_unbound_witness:
  "''unsupported_op'' \<notin> set registered
   \<and> execute_function sample_float_ops ''2024-12-02 10:00:00'' ''20241202100000'' sample_db
        ''unsupported_op'' []
       = Some (Inr (VDict [(VStr ''error'', VStr ''Unknown function: unsupported_op'')]), sample_db)
   \<and> ''get_facility_details'' \<in> set registered
   \<and> ''facility_id'' \<in> set (required_of ''get_facility_details'')
   \<and> ''facility_id'' \<notin> fst ` set [(''id'', VStr ''hosp_001'')]
   \<and> execute_function sample_float_ops ''2024-12-02 10:00:00'' ''20241202100000'' sample_db
        ''get_facility_details'' [(''id'', VStr ''hosp_001'')]
       = Some (Inl TypeError, sample_db)"
proof -
  have u: "''unsupported_op'' \<notin> set registered"
    by (simp add: registered_def)
  have r: "''get_facility_details'' \<in> set registered"
    by (simp add: registered_def)
  have k: "''facility_id'' \<in> set (required_of ''get_facility_details'')"
    by (simp add: required_of_def)
  have m: "''facility_id'' \<notin> fst ` set [(''id'', VStr ''hosp_001'')]"
    by simp
  from k m have "\<exists>k \<in> set (required_of ''get_facility_details'').
      k \<notin> fst ` set [(''id'', VStr ''hosp_001'')]"
    by blast
  with u r k m
    execute_function_unknown_or_unbound [where name = "''unsupported_op''"
      and fo = sample_float_ops and now = "''2024-12-02 10:00:00''"
      and stamp = "''20241202100000''" and db = sample_db and arguments = "[]"]
    execute_function_unknown_or_unbound [where name = "''get_facility_details''"
      and fo = sample_float_ops and now = "''2024-12-02 10:00:00''"
      and stamp = "''20241202100000''" and db = sample_db
      and arguments = "[(''id'', VStr ''hosp_001'')]"]
  show ?thesis by simp
qed

text \<open>
  With well-formed arguments the dispatcher reaches the handlers: looking up a
  facility that is not stored gives the not-found payload, and scheduling an
  appointment at \<^verbatim>\<open>hosp_001\<close> stores the appointment list as an attribute.
\<close>

lemma execute_function_not_found_sample:
  "execute_function sample_float_ops ''2024-12-02 10:00:00'' ''20241202100000'' sample_db
      ''get_facility_details'' [(''facility_id'', VStr ''missing_id'')]
     = Some (Inr (VDict [(VStr ''error'', VStr ''Facility missing_id not found'')]), sample_db)"
proof -
  have "get_facility_details sample_float_ops sample_db (VStr ''missing_id'')
      = Some (VDict [(VStr ''error'', VStr ''Facility missing_id not found'')])"
    by code_simp
  then show ?thesis
    by (simp add: execute_function_def registered_def required_of_def optional_of_def binds_def
        argument_def lookup_def pure_result_def)
qed

lemma execute_function_schedule_sample:
  "map attribute_key
     (attributes_of
        (snd (the (execute_function sample_float_ops ''2024-12-02 10:00:00'' ''20241202100000''
                     sample_db ''schedule_appointment''
                     [(''facility_id'', VStr ''hosp_001''), (''service_type'', VStr ''cardiology''),
                      (''date'', VStr ''2024-12-15'')])))
        ''hosp_001'')
     = [''bed_count'', ''emergency_room'', ''appointments'']"
proof -
  have "map attribute_key
     (attributes_of
        (snd (the (schedule_appointment sample_float_ops ''2024-12-02 10:00:00''
                     ''20241202100000'' sample_db (VStr ''hosp_001'') (VStr ''cardiology'')
                     (VStr ''2024-12-15'') VNone)))
        ''hosp_001'')
     = [''bed_count'', ''emergency_room'', ''appointments'']"
    by code_simp
  then show ?thesis
    by (simp add: execute_function_def registered_def required_of_def optional_of_def binds_def
        argument_def lookup_def)
qed

end
